theory Spec2Isabelle
  imports Complex_Main
begin

section \<open>Python values, exceptions and the HTTP transport\<close>

text \<open>
  The value that \<open>token_response.json()\<close> hands back is a Python object built from JSON:
  \<open>None\<close>, a bool, an int, a float, a str, a list or a dict. A dict is kept as an association
  list with \<open>map_of\<close> as its lookup. \<open>JNull\<close> is Python's \<open>None\<close>, also where an attribute
  of the authenticator holds \<open>None\<close>.
\<close>

datatype jvalue =
    JNull
  | JBool bool
  | JInt int
  | JFloat real
  | JStr string
  | JArr "jvalue list"
  | JObj "(string \<times> jvalue) list"

text \<open>
  The pieces of an f-string: literal text and interpolated values. The text of an interpolated
  exception is already a string.
\<close>

datatype fragment = Lit string | Fmt jvalue

text \<open>
  The exceptions that can leave \<open>update_access_token\<close>. \<open>RuntimeError msg cause\<close> is
  \<open>raise RuntimeError(msg) from cause\<close>; \<open>HTTPError m\<close> is what \<open>raise_for_status\<close>
  raises, with its message; \<open>RequestException\<close> stands for a failure of \<open>requests.post\<close>
  itself (no connection, timeout).
\<close>

datatype exn =
    KeyError string
  | TypeError
  | AttributeError
  | JSONDecodeError
  | HTTPError string
  | RequestException string
  | RuntimeError "fragment list" exn

text \<open>\<open>d[k]\<close> on a dict.\<close>

definition dict_item :: "(string \<times> jvalue) list \<Rightarrow> string \<Rightarrow> exn + jvalue" where
  "dict_item d k = (case map_of d k of None \<Rightarrow> Inl (KeyError k) | Some v \<Rightarrow> Inr v)"

text \<open>\<open>v[k]\<close> with a string key \<open>k\<close>: only a dict can be subscripted by a string.\<close>

fun getitem :: "jvalue \<Rightarrow> string \<Rightarrow> exn + jvalue" where
  "getitem (JObj d) k = dict_item d k"
| "getitem _ k = Inl TypeError"

text \<open>\<open>v.get(k, default)\<close>: only a dict has the method.\<close>

fun dict_get :: "jvalue \<Rightarrow> string \<Rightarrow> jvalue \<Rightarrow> exn + jvalue" where
  "dict_get (JObj d) k dflt = (case map_of d k of None \<Rightarrow> Inr dflt | Some v \<Rightarrow> Inr v)"
| "dict_get _ k dflt = Inl AttributeError"

text \<open>An optional integer attribute as a Python value.\<close>

fun of_optional :: "int option \<Rightarrow> jvalue" where
  "of_optional None = JNull"
| "of_optional (Some n) = JInt n"

text \<open>
  The arguments of \<open>requests.post(url, data=..., timeout=...)\<close>.
\<close>

record http_request =
  url :: string
  data :: "(string \<times> jvalue) list"
  timeout :: nat

text \<open>
  The response object, as far as the code uses it. The transport library is not part of the
  program, so what its two methods do on this response is part of the object:
  \<open>raise_for_status\<close> is \<open>None\<close> when \<open>raise_for_status()\<close> returns and \<open>Some m\<close> when
  it raises \<open>HTTPError\<close> with message \<open>m\<close>; \<open>json\<close> is \<open>None\<close> when \<open>json()\<close> raises
  (the body is not JSON) and \<open>Some v\<close> when it returns \<open>v\<close>.
\<close>

record response =
  status_code :: int
  raise_for_status :: "string option"
  json :: "jvalue option"

datatype level = INFO | DEBUG

text \<open>
  Everything outside the authenticator object: the clock that \<open>utc_now\<close> reads, the remote
  end (its answer to the latest request, given all requests posted so far, and the seconds
  the exchange takes), the requests posted so far, and the log lines written so far.
\<close>

record world =
  clock :: int
  remote :: "http_request list \<Rightarrow> (exn + response) \<times> nat"
  sent :: "http_request list"
  logged :: "(level \<times> string) list"

definition utc_now :: "world \<Rightarrow> int" where
  "utc_now w = clock w"

definition requests_post :: "http_request \<Rightarrow> world \<Rightarrow> (exn + response) \<times> world" where
  "requests_post rq w =
     (let history = sent w @ [rq];
          (outcome, seconds) = remote w history
      in (outcome, w\<lparr>clock := clock w + int seconds, sent := history\<rparr>))"

definition logger :: "level \<Rightarrow> string \<Rightarrow> world \<Rightarrow> world" where
  "logger lvl msg w = w\<lparr>logged := logged w @ [(lvl, msg)]\<rparr>"

section \<open>The authenticator\<close>

text \<open>
  The attributes of \<open>PersonioAuthenticator\<close> that the code reads or writes. The last three
  are the token state; \<open>access_token\<close> and \<open>expires_in\<close> hold Python values, \<open>JNull\<close> for
  \<open>None\<close>. Times are seconds on the clock of the world.
\<close>

record authenticator =
  config :: "(string \<times> jvalue) list"
  auth_endpoint :: string
  oauth_scopes :: string
  default_expiration :: "int option"
  access_token :: jvalue
  expires_in :: jvalue
  last_refreshed :: "int option"

definition oauth_request_body :: "authenticator \<Rightarrow> exn + (string \<times> jvalue) list" where
  "oauth_request_body self =
     (case dict_item (config self) ''client_id'' of
        Inl e \<Rightarrow> Inl e
      | Inr client_id \<Rightarrow>
          (case dict_item (config self) ''client_secret'' of
             Inl e \<Rightarrow> Inl e
           | Inr client_secret \<Rightarrow>
               Inr [(''client_id'', client_id), (''client_secret'', client_secret)]))"

text \<open>
  Modelled from the spec: the property \<open>oauth_request_payload\<close> that \<open>update_access_token\<close>
  reads is inherited from the framework's base class and is not in the source. The spec has
  the request body built as \<open>{client_id, client_secret}\<close>, which is \<open>oauth_request_body\<close>.
\<close>

definition oauth_request_payload :: "authenticator \<Rightarrow> exn + (string \<times> jvalue) list" where
  "oauth_request_payload self = oauth_request_body self"

text \<open>The message of the \<open>RuntimeError\<close>: the f-string of the source, piece by piece.\<close>

definition failed_login_msg :: "jvalue \<Rightarrow> string \<Rightarrow> fragment list" where
  "failed_login_msg body ex =
     [Lit (''Failed OAuth login, response was '' @ [CHR 0x27]), Fmt body,
      Lit (CHR 0x27 # ''. ''), Lit ex]"

text \<open>The text of the debug line, the three adjacent string literals of the source.\<close>

definition no_expiry_msg :: string where
  "no_expiry_msg =
     ''No expires_in receied in OAuth response and no '' @
     ''default_expiration set. Token will be treated as if it never '' @
     ''expires.''"

text \<open>
  \<open>update_access_token\<close>, statement by statement. An exception leaves the object and the
  world as they are at the raise, so the result holds the exception (if any) together with
  the authenticator and the world at that point.
\<close>

definition update_access_token ::
  "authenticator \<Rightarrow> world \<Rightarrow> exn option \<times> authenticator \<times> world" where
  "update_access_token self w =
     (let request_time = utc_now w in
      case oauth_request_payload self of
        Inl e \<Rightarrow> (Some e, self, w)
      | Inr auth_request_payload \<Rightarrow>
      (case requests_post
              \<lparr>url = auth_endpoint self, data = auth_request_payload, timeout = 60\<rparr> w of
        (Inl e, w1) \<Rightarrow> (Some e, self, w1)
      | (Inr token_response, w1) \<Rightarrow>
      (case raise_for_status token_response of
        Some ex \<Rightarrow>
          (case json token_response of
             None \<Rightarrow> (Some JSONDecodeError, self, w1)
           | Some body \<Rightarrow>
               (Some (RuntimeError (failed_login_msg body ex) (HTTPError ex)), self, w1))
      | None \<Rightarrow>
      (let w2 = logger INFO ''OAuth authorization attempt was successful.'' w1 in
       case json token_response of
         None \<Rightarrow> (Some JSONDecodeError, self, w2)
       | Some token_json \<Rightarrow>
       (case getitem token_json ''data'' of
         Inl e \<Rightarrow> (Some e, self, w2)
       | Inr d \<Rightarrow>
       (case getitem d ''token'' of
         Inl e \<Rightarrow> (Some e, self, w2)
       | Inr token \<Rightarrow>
       (let self1 = self\<lparr>access_token := token\<rparr> in
        case dict_get token_json ''expires_in'' (of_optional (default_expiration self1)) of
          Inl e \<Rightarrow> (Some e, self1, w2)
        | Inr expires \<Rightarrow>
        (let self2 = self1\<lparr>expires_in := expires\<rparr>;
             w3 = (case expires_in self2 of
                     JNull \<Rightarrow> logger DEBUG no_expiry_msg w2
                   | _ \<Rightarrow> w2);
             self3 = self2\<lparr>last_refreshed := Some request_time\<rparr>
         in (None, self3, w3)))))))))"

text \<open>
  Modelled from the spec: the constructor behind \<open>cls(stream=..., auth_endpoint=...,
  oauth_scopes=...)\<close> is the framework's and is not in the source. It keeps the
  configuration of the stream and its two other arguments; no default expiration is passed
  to it; and, the spec's "TokenState starts empty", the three token fields start as
  \<open>None\<close>.
\<close>

record stream =
  stream_config :: "(string \<times> jvalue) list"

definition PersonioAuthenticator_init :: "stream \<Rightarrow> string \<Rightarrow> string \<Rightarrow> authenticator" where
  "PersonioAuthenticator_init strm endpoint scopes =
     \<lparr>config = stream_config strm,
      auth_endpoint = endpoint,
      oauth_scopes = scopes,
      default_expiration = None,
      access_token = JNull,
      expires_in = JNull,
      last_refreshed = None\<rparr>"

text \<open>
  The objects of the process: the authenticators that exist, addressed by their position,
  and the instances the metaclass remembers, by configuration.
\<close>

record process =
  objects :: "authenticator list"
  instances :: "((string \<times> jvalue) list \<times> nat) list"

text \<open>
  Modelled from the spec: \<open>SingletonMeta\<close>, the metaclass of \<open>PersonioAuthenticator\<close>,
  is the framework's and is not in the source. The spec describes it as a shared-instance
  pattern keyed by configuration: a mapping from configuration to one instance, constructed
  on first use and looked up afterwards. Calling the class returns the address of the
  instance.
\<close>

definition SingletonMeta_call ::
  "stream \<Rightarrow> string \<Rightarrow> string \<Rightarrow> process \<Rightarrow> nat \<times> process" where
  "SingletonMeta_call strm endpoint scopes p =
     (case map_of (instances p) (stream_config strm) of
        Some a \<Rightarrow> (a, p)
      | None \<Rightarrow>
          (let a = length (objects p)
           in (a, p\<lparr>objects := objects p @ [PersonioAuthenticator_init strm endpoint scopes],
                    instances := (stream_config strm, a) # instances p\<rparr>)))"

text \<open>
  \<open>create_for_stream\<close> calls the class with the stream, the fixed endpoint and the empty
  scope string; the call goes through the metaclass.
\<close>

definition create_for_stream :: "stream \<Rightarrow> process \<Rightarrow> nat \<times> process" where
  "create_for_stream strm p =
     SingletonMeta_call strm ''https://api.personio.de/v1/auth'' '''' p"

section \<open>Token validity and token use\<close>

text \<open>
  Modelled from the spec: \<open>isValid\<close> and \<open>getToken\<close> belong to the framework's base class
  and are not in the source. \<open>isValid\<close> is true iff \<open>access_token\<close> is present and not
  expired: with \<open>expires_in\<close> present, the token is invalid once
  \<open>now \<ge> last_refreshed + expires_in\<close>; with \<open>expires_in\<close> absent it never expires. The
  spec gives \<open>expires_in\<close> as integer seconds; a token whose \<open>expires_in\<close> is present but
  no integer, or whose \<open>last_refreshed\<close> is missing, is taken as not valid.
\<close>

definition isValid :: "authenticator \<Rightarrow> world \<Rightarrow> bool" where
  "isValid self w =
     (case access_token self of
        JNull \<Rightarrow> False
      | _ \<Rightarrow>
          (case expires_in self of
             JNull \<Rightarrow> True
           | JInt n \<Rightarrow>
               (case last_refreshed self of
                  None \<Rightarrow> False
                | Some t \<Rightarrow> utc_now w < t + n)
           | _ \<Rightarrow> False))"

text \<open>
  Modelled from the spec: \<open>getToken\<close> returns the current \<open>access_token\<close> if \<open>isValid\<close>,
  otherwise performs a synchronous refresh first, then returns it; it fails if the refresh
  fails. The refresh is \<open>update_access_token\<close> of the source.
\<close>

definition getToken :: "authenticator \<Rightarrow> world \<Rightarrow> (exn + jvalue) \<times> authenticator \<times> world" where
  "getToken self w =
     (if isValid self w then (Inr (access_token self), self, w)
      else
        (case update_access_token self w of
           (Some e, self', w') \<Rightarrow> (Inl e, self', w')
         | (None, self', w') \<Rightarrow> (Inr (access_token self'), self', w')))"

text \<open>
  \<open>getToken\<close> called through a reference: the object at address \<open>a\<close> is the one that is
  read and updated. \<open>None\<close> when \<open>a\<close> is not the address of an object.
\<close>

definition getToken_at ::
  "nat \<Rightarrow> process \<Rightarrow> world \<Rightarrow> ((exn + jvalue) \<times> process \<times> world) option" where
  "getToken_at a p w =
     (if a < length (objects p) then
        (case getToken (objects p ! a) w of
           (r, self', w') \<Rightarrow> Some (r, p\<lparr>objects := (objects p)[a := self']\<rparr>, w'))
      else None)"

section \<open>Example inputs\<close>

definition personio_stream :: stream where
  "personio_stream =
     \<lparr>stream_config = [(''client_id'', JStr ''id''), (''client_secret'', JStr ''secret'')]\<rparr>"

definition empty_process :: process where
  "empty_process = \<lparr>objects = [], instances = []\<rparr>"

text \<open>A fresh authenticator for \<open>personio_stream\<close>, and one with a default expiration.\<close>

definition fresh_auth :: authenticator where
  "fresh_auth =
     PersonioAuthenticator_init personio_stream ''https://api.personio.de/v1/auth'' ''''"

definition auth_with_default :: authenticator where
  "auth_with_default = fresh_auth\<lparr>default_expiration := Some 7200\<rparr>"

text \<open>A world whose remote end answers every request with \<open>resp\<close> after two seconds.\<close>

definition world_answering :: "response \<Rightarrow> world" where
  "world_answering resp =
     \<lparr>clock = 1000, remote = (\<lambda>history. (Inr resp, 2)), sent = [], logged = []\<rparr>"

definition ok_response :: "jvalue \<Rightarrow> response" where
  "ok_response body = \<lparr>status_code = 200, raise_for_status = None, json = Some body\<rparr>"

text \<open>\<open>{"data": {"token": "T"}, "expires_in": 3600}\<close>\<close>

definition token_body :: jvalue where
  "token_body = JObj [(''data'', JObj [(''token'', JStr ''T'')]), (''expires_in'', JInt 3600)]"

text \<open>\<open>{"data": {"token": "T"}}\<close>\<close>

definition token_body_no_expiry :: jvalue where
  "token_body_no_expiry = JObj [(''data'', JObj [(''token'', JStr ''T'')])]"

text \<open>\<open>{"data": {"token": "T"}, "expires_in": null}\<close>\<close>

definition token_body_null_expiry :: jvalue where
  "token_body_null_expiry =
     JObj [(''data'', JObj [(''token'', JStr ''T'')]), (''expires_in'', JNull)]"

text \<open>\<open>{"data": {}}\<close>\<close>

definition body_without_token :: jvalue where
  "body_without_token = JObj [(''data'', JObj [])]"

text \<open>A 502 from a gateway, with an HTML body.\<close>

definition bad_gateway :: response where
  "bad_gateway =
     \<lparr>status_code = 502,
      raise_for_status =
        Some ''502 Server Error: Bad Gateway for url: https://api.personio.de/v1/auth'',
      json = None\<rparr>"

text \<open>A 401 with the JSON body \<open>{"success": false}\<close>.\<close>

definition unauthorized :: response where
  "unauthorized =
     \<lparr>status_code = 401,
      raise_for_status =
        Some ''401 Client Error: Unauthorized for url: https://api.personio.de/v1/auth'',
      json = Some (JObj [(''success'', JBool False)])\<rparr>"

text \<open>The request that a refresh of \<open>fresh_auth\<close> posts.\<close>

definition personio_request :: http_request where
  "personio_request =
     \<lparr>url = ''https://api.personio.de/v1/auth'',
      data = [(''client_id'', JStr ''id''), (''client_secret'', JStr ''secret'')],
      timeout = 60\<rparr>"

text \<open>
  \<open>world_answering resp\<close> after one refresh: two seconds later, one request posted, and
  the given lines logged.
\<close>

definition world_after :: "response \<Rightarrow> (level \<times> string) list \<Rightarrow> world" where
  "world_after resp ls =
     (world_answering resp)\<lparr>clock := 1002, sent := [personio_request], logged := ls\<rparr>"

text \<open>\<open>{"access_token": "X", "data": {"token": "T"}}\<close>\<close>

definition token_body_with_oauth_field :: jvalue where
  "token_body_with_oauth_field =
     JObj [(''access_token'', JStr ''X''), (''data'', JObj [(''token'', JStr ''T'')])]"

text \<open>A 200 whose body is not JSON.\<close>

definition ok_not_json :: response where
  "ok_not_json = \<lparr>status_code = 200, raise_for_status = None, json = None\<rparr>"

text \<open>
  A world whose remote end hands out token \<open>T\<close> for 3600 seconds to the first request and
  token \<open>U\<close> without expiry to every later one.
\<close>

definition world_rotating :: world where
  "world_rotating =
     \<lparr>clock = 1000,
      remote = (\<lambda>history.
        if length history \<le> 1 then (Inr (ok_response token_body), 2)
        else (Inr (ok_response (JObj [(''data'', JObj [(''token'', JStr ''U'')])])), 3)),
      sent = [], logged = []\<rparr>"

lemmas refresh_defs =
  update_access_token_def requests_post_def utc_now_def logger_def Let_def
  oauth_request_payload_def oauth_request_body_def dict_item_def no_expiry_msg_def

lemmas example_defs =
  personio_stream_def fresh_auth_def auth_with_default_def PersonioAuthenticator_init_def
  world_answering_def world_after_def personio_request_def ok_response_def ok_not_json_def
  token_body_def token_body_no_expiry_def token_body_null_expiry_def body_without_token_def
  token_body_with_oauth_field_def bad_gateway_def unauthorized_def

section \<open>What a refresh does\<close>

lemma getitem_Inr_is_dict:
  "getitem v k = Inr x \<Longrightarrow> \<exists>d. v = JObj d \<and> map_of d k = Some x"
  by (cases v) (simp_all add: dict_item_def split: option.splits)

lemma getitem_dict: "map_of d k = Some x \<Longrightarrow> getitem (JObj d) k = Inr x"
  by (simp add: dict_item_def)

lemma log_if_never_expires:
  "(case v of JNull \<Rightarrow> logger lvl msg w2 | _ \<Rightarrow> w2)
     = w2\<lparr>logged := logged w2 @ (case v of JNull \<Rightarrow> [(lvl, msg)] | _ \<Rightarrow> [])\<rparr>"
  by (cases v) (simp_all add: logger_def)

text \<open>
  The run of a refresh whose request is answered with a response that passes the status
  check and carries a token at \<open>data.token\<close>.
\<close>

lemma update_access_token_eval:
  assumes payload: "oauth_request_payload self = Inr payload"
    and answer:
      "remote w (sent w @ [\<lparr>url = auth_endpoint self, data = payload, timeout = 60\<rparr>])
         = (Inr resp, secs)"
    and status: "raise_for_status resp = None"
    and body: "json resp = Some (JObj obj)"
    and dv: "map_of obj ''data'' = Some d"
    and token: "getitem d ''token'' = Inr token"
  shows "update_access_token self w =
           (None,
            self\<lparr>access_token := token,
                 expires_in := (case map_of obj ''expires_in'' of
                                  None \<Rightarrow> of_optional (default_expiration self)
                                | Some v \<Rightarrow> v),
                 last_refreshed := Some (clock w)\<rparr>,
            w\<lparr>clock := clock w + int secs,
              sent := sent w @ [\<lparr>url = auth_endpoint self, data = payload, timeout = 60\<rparr>],
              logged := logged w @
                (INFO, ''OAuth authorization attempt was successful.'') #
                (case (case map_of obj ''expires_in'' of
                         None \<Rightarrow> of_optional (default_expiration self)
                       | Some v \<Rightarrow> v) of
                   JNull \<Rightarrow> [(DEBUG, no_expiry_msg)]
                 | _ \<Rightarrow> [])\<rparr>)"
proof -
  let ?rq = "\<lparr>url = auth_endpoint self, data = payload, timeout = 60\<rparr>"
  have post: "requests_post ?rq w
                = (Inr resp, w\<lparr>clock := clock w + int secs, sent := sent w @ [?rq]\<rparr>)"
    by (simp add: requests_post_def Let_def answer)
  have "getitem (JObj obj) ''data'' = Inr d"
    using dv by (rule getitem_dict)
  then show ?thesis
    unfolding update_access_token_def Let_def utc_now_def
    by (simp add: payload post status body token log_if_never_expires logger_def
             split: option.splits)
qed

text \<open>Every refresh that raises nothing ran that way.\<close>

lemma update_access_token_success:
  assumes "update_access_token self w = (None, self', w')"
  shows "\<exists>payload resp secs obj d token.
           oauth_request_payload self = Inr payload
         \<and> remote w (sent w @ [\<lparr>url = auth_endpoint self, data = payload, timeout = 60\<rparr>])
             = (Inr resp, secs)
         \<and> raise_for_status resp = None
         \<and> json resp = Some (JObj obj)
         \<and> map_of obj ''data'' = Some d
         \<and> getitem d ''token'' = Inr token"
proof -
  obtain payload where payload: "oauth_request_payload self = Inr payload"
    using assms unfolding update_access_token_def Let_def
    by (cases "oauth_request_payload self") auto
  let ?rq = "\<lparr>url = auth_endpoint self, data = payload, timeout = 60\<rparr>"
  obtain outcome secs where answer: "remote w (sent w @ [?rq]) = (outcome, secs)"
    by (cases "remote w (sent w @ [?rq])") auto
  have post: "requests_post ?rq w
                = (outcome, w\<lparr>clock := clock w + int secs, sent := sent w @ [?rq]\<rparr>)"
    by (simp add: requests_post_def Let_def answer)
  obtain resp where resp: "outcome = Inr resp"
    using assms payload post unfolding update_access_token_def Let_def
    by (cases outcome) auto
  have status: "raise_for_status resp = None"
    using assms payload post resp unfolding update_access_token_def Let_def
    by (cases "raise_for_status resp") (auto split: option.splits)
  obtain token_json where body: "json resp = Some token_json"
    using assms payload post resp status unfolding update_access_token_def Let_def
    by (cases "json resp") auto
  obtain dv where dv: "getitem token_json ''data'' = Inr dv"
    using assms payload post resp status body unfolding update_access_token_def Let_def
    by (cases "getitem token_json ''data''") auto
  obtain token where token: "getitem dv ''token'' = Inr token"
    using assms payload post resp status body dv unfolding update_access_token_def Let_def
    by (cases "getitem dv ''token''") auto
  obtain obj where obj: "token_json = JObj obj" "map_of obj ''data'' = Some dv"
    using getitem_Inr_is_dict [OF dv] by auto
  from payload answer resp status body obj token show ?thesis
    by blast
qed

text \<open>A refresh that raises leaves the authenticator as it was.\<close>

lemma update_access_token_failure:
  assumes "update_access_token self w = (Some e, self', w')"
  shows "self' = self"
proof (cases "oauth_request_payload self")
  case (Inl e')
  with assms show ?thesis by (simp add: update_access_token_def Let_def)
next
  case (Inr payload)
  let ?rq = "\<lparr>url = auth_endpoint self, data = payload, timeout = 60\<rparr>"
  obtain outcome w1 where post: "requests_post ?rq w = (outcome, w1)"
    by (cases "requests_post ?rq w") auto
  show ?thesis
  proof (cases outcome)
    case (Inl e')
    with assms Inr post show ?thesis by (simp add: update_access_token_def Let_def)
  next
    case resp: (Inr resp)
    show ?thesis
    proof (cases "raise_for_status resp")
      case (Some ex)
      with assms Inr post resp show ?thesis
        by (auto simp: update_access_token_def Let_def split: option.splits)
    next
      case None
      show ?thesis
      proof (cases "json resp")
        case no_json: None
        with assms Inr post resp None show ?thesis
          by (simp add: update_access_token_def Let_def)
      next
        case (Some token_json)
        show ?thesis
        proof (cases "getitem token_json ''data''")
          case (Inl e')
          with assms Inr post resp None Some show ?thesis
            by (simp add: update_access_token_def Let_def)
        next
          case dv: (Inr dv)
          then obtain obj where obj: "token_json = JObj obj"
            using getitem_Inr_is_dict by blast
          show ?thesis
          proof (cases "getitem dv ''token''")
            case (Inl e')
            with assms Inr post resp None Some dv show ?thesis
              by (simp add: update_access_token_def Let_def)
          next
            case token: (Inr token)
            with assms Inr post resp None Some dv obj show ?thesis
              by (simp add: update_access_token_def Let_def split: option.splits)
          qed
        qed
      qed
    qed
  qed
qed

text \<open>
  A refresh whose response fails the status check and has a JSON body raises the
  \<open>RuntimeError\<close> that carries the body and the \<open>HTTPError\<close>.
\<close>

lemma update_access_token_http_error:
  assumes "oauth_request_payload self = Inr payload"
    and "remote w (sent w @ [\<lparr>url = auth_endpoint self, data = payload, timeout = 60\<rparr>])
           = (Inr resp, secs)"
    and "raise_for_status resp = Some ex"
    and "json resp = Some body"
  shows "update_access_token self w =
           (Some (RuntimeError (failed_login_msg body ex) (HTTPError ex)), self,
            w\<lparr>clock := clock w + int secs,
              sent := sent w @ [\<lparr>url = auth_endpoint self, data = payload, timeout = 60\<rparr>]\<rparr>)"
  using assms
  by (simp add: update_access_token_def requests_post_def Let_def)

text \<open>The refresh reads nothing of the token state.\<close>

lemma oauth_request_payload_token_state:
  "oauth_request_payload (self\<lparr>access_token := x, expires_in := y, last_refreshed := z\<rparr>)
     = oauth_request_payload self"
  by (simp add: oauth_request_payload_def oauth_request_body_def split: sum.splits)

text \<open>
  Without a request body nothing is posted; with one, exactly one request is posted, whatever
  comes of it, and the log only grows.
\<close>

lemma update_access_token_no_payload:
  assumes "update_access_token self w = (r, self', w')"
    and "oauth_request_payload self = Inl e"
  shows "r = Some e \<and> self' = self \<and> w' = w"
  using assms by (auto simp: update_access_token_def Let_def)

lemma update_access_token_posts:
  assumes "update_access_token self w = (r, self', w')"
    and "oauth_request_payload self = Inr payload"
  shows "remote w' = remote w \<and> (\<exists>ls. logged w' = logged w @ ls)
       \<and> sent w' = sent w @ [\<lparr>url = auth_endpoint self, data = payload, timeout = 60\<rparr>]
       \<and> clock w' = clock w
           + int (snd (remote w
               (sent w @ [\<lparr>url = auth_endpoint self, data = payload, timeout = 60\<rparr>])))"
proof -
  let ?rq = "\<lparr>url = auth_endpoint self, data = payload, timeout = 60\<rparr>"
  obtain outcome secs where answer: "remote w (sent w @ [?rq]) = (outcome, secs)"
    by (cases "remote w (sent w @ [?rq])") auto
  define w1 where "w1 = w\<lparr>clock := clock w + int secs, sent := sent w @ [?rq]\<rparr>"
  have post: "requests_post ?rq w = (outcome, w1)"
    by (simp add: requests_post_def Let_def answer w1_def)
  have w1: "remote w1 = remote w" "logged w1 = logged w" "sent w1 = sent w @ [?rq]"
    "clock w1 = clock w + int secs"
    by (simp_all add: w1_def)
  have "w' = w1 \<or> w' = logger INFO ''OAuth authorization attempt was successful.'' w1
      \<or> w' = logger DEBUG no_expiry_msg
                (logger INFO ''OAuth authorization attempt was successful.'' w1)"
    using assms post unfolding update_access_token_def Let_def
    by (auto split: sum.splits option.splits jvalue.splits)
  then have "remote w' = remote w \<and> (\<exists>ls. logged w' = logged w @ ls)
           \<and> sent w' = sent w @ [?rq] \<and> clock w' = clock w + int secs"
    using w1 by (auto simp: logger_def)
  with answer show ?thesis by simp
qed

section \<open>Runs on the example inputs\<close>

lemma refresh_token_body:
  "update_access_token fresh_auth (world_answering (ok_response token_body))
     = (None,
        fresh_auth\<lparr>access_token := JStr ''T'', expires_in := JInt 3600,
                    last_refreshed := Some 1000\<rparr>,
        world_after (ok_response token_body)
          [(INFO, ''OAuth authorization attempt was successful.'')])"
  by (simp add: refresh_defs example_defs)

lemma refresh_default_expiry:
  "update_access_token auth_with_default (world_answering (ok_response token_body_no_expiry))
     = (None,
        auth_with_default\<lparr>access_token := JStr ''T'', expires_in := JInt 7200,
                           last_refreshed := Some 1000\<rparr>,
        world_after (ok_response token_body_no_expiry)
          [(INFO, ''OAuth authorization attempt was successful.'')])"
  by (simp add: refresh_defs example_defs)


lemma refresh_oauth_field:
  "update_access_token fresh_auth
     (world_answering (ok_response token_body_with_oauth_field))
     = (None,
        fresh_auth\<lparr>access_token := JStr ''T'', expires_in := JNull,
                    last_refreshed := Some 1000\<rparr>,
        world_after (ok_response token_body_with_oauth_field)
          [(INFO, ''OAuth authorization attempt was successful.''),
           (DEBUG, no_expiry_msg)])"
  by (simp add: refresh_defs example_defs)

section \<open>The token state after a successful refresh\<close>

text \<open>
  C4. For every successful refresh, \<open>last_refreshed\<close> is the request time: the reading of the
  clock taken at the start of the call, before the POST is sent. It is not the time at which
  the response has arrived, which is later by the seconds the exchange took.
\<close>

theorem last_refreshed_is_request_time:
  assumes "update_access_token self w = (None, self', w')"
  shows "last_refreshed self' = Some (utc_now w)
       \<and> (\<exists>payload resp secs.
             oauth_request_payload self = Inr payload
           \<and> remote w (sent w @ [\<lparr>url = auth_endpoint self, data = payload, timeout = 60\<rparr>])
               = (Inr resp, secs)
           \<and> utc_now w' = utc_now w + int secs)"
proof -
  from update_access_token_success [OF assms] obtain payload resp secs obj d token where
    run: "oauth_request_payload self = Inr payload"
      "remote w (sent w @ [\<lparr>url = auth_endpoint self, data = payload, timeout = 60\<rparr>])
         = (Inr resp, secs)"
      "raise_for_status resp = None" "json resp = Some (JObj obj)"
      "map_of obj ''data'' = Some d" "getitem d ''token'' = Inr token"
    by blast
  from update_access_token_eval [OF run] assms
  have "last_refreshed self' = Some (utc_now w)" and "utc_now w' = utc_now w + int secs"
    by (auto simp: utc_now_def)
  with run show ?thesis by blast
qed

text \<open>
  On the example: the clock reads 1000 at the call and 1002 once the response is there;
  \<open>last_refreshed\<close> is 1000.
\<close>

theorem last_refreshed_is_request_time_witness:
  "update_access_token fresh_auth (world_answering (ok_response token_body))
     = (None,
        fresh_auth\<lparr>access_token := JStr ''T'', expires_in := JInt 3600,
                    last_refreshed := Some 1000\<rparr>,
        world_after (ok_response token_body)
          [(INFO, ''OAuth authorization attempt was successful.'')])
   \<and> last_refreshed
       (fresh_auth\<lparr>access_token := JStr ''T'', expires_in := JInt 3600,
                    last_refreshed := Some 1000\<rparr>)
       = Some (utc_now (world_answering (ok_response token_body)))
   \<and> utc_now (world_answering (ok_response token_body)) = 1000
   \<and> utc_now (world_after (ok_response token_body)
        [(INFO, ''OAuth authorization attempt was successful.'')]) = 1002"
  using last_refreshed_is_request_time [OF refresh_token_body] refresh_token_body
  by (simp add: utc_now_def world_answering_def world_after_def)

text \<open>
  C5. For every successful refresh, \<open>expires_in\<close> is the value under the key \<open>expires_in\<close>
  at the top level of the JSON object of the response; if the key is absent there, it is the
  configured default expiration; and if that is absent too, it is \<open>None\<close>.
\<close>

theorem expires_in_from_response_or_default:
  assumes "update_access_token self w = (None, self', w')"
  shows "\<exists>payload resp secs obj.
           oauth_request_payload self = Inr payload
         \<and> remote w (sent w @ [\<lparr>url = auth_endpoint self, data = payload, timeout = 60\<rparr>])
             = (Inr resp, secs)
         \<and> json resp = Some (JObj obj)
         \<and> expires_in self' =
             (case map_of obj ''expires_in'' of
                Some v \<Rightarrow> v
              | None \<Rightarrow> (case default_expiration self of Some n \<Rightarrow> JInt n | None \<Rightarrow> JNull))"
proof -
  from update_access_token_success [OF assms] obtain payload resp secs obj d token where
    run: "oauth_request_payload self = Inr payload"
      "remote w (sent w @ [\<lparr>url = auth_endpoint self, data = payload, timeout = 60\<rparr>])
         = (Inr resp, secs)"
      "raise_for_status resp = None" "json resp = Some (JObj obj)"
      "map_of obj ''data'' = Some d" "getitem d ''token'' = Inr token"
    by blast
  from update_access_token_eval [OF run] assms
  have "expires_in self' =
          (case map_of obj ''expires_in'' of
             Some v \<Rightarrow> v
           | None \<Rightarrow> (case default_expiration self of Some n \<Rightarrow> JInt n | None \<Rightarrow> JNull))"
    by (cases "default_expiration self") (auto split: option.splits)
  with run show ?thesis by blast
qed

text \<open>
  On the example: the response has no \<open>expires_in\<close> and the default is 7200, which is what
  is stored.
\<close>

theorem expires_in_from_response_or_default_witness:
  "update_access_token auth_with_default (world_answering (ok_response token_body_no_expiry))
     = (None,
        auth_with_default\<lparr>access_token := JStr ''T'', expires_in := JInt 7200,
                           last_refreshed := Some 1000\<rparr>,
        world_after (ok_response token_body_no_expiry)
          [(INFO, ''OAuth authorization attempt was successful.'')])
   \<and> (\<exists>obj. json (ok_response token_body_no_expiry) = Some (JObj obj)
          \<and> map_of obj ''expires_in'' = None
          \<and> JInt 7200 =
              (case map_of obj ''expires_in'' of
                 Some v \<Rightarrow> v
               | None \<Rightarrow> (case default_expiration auth_with_default of
                            Some n \<Rightarrow> JInt n | None \<Rightarrow> JNull)))"
  using expires_in_from_response_or_default [OF refresh_default_expiry] refresh_default_expiry
  by (simp add: example_defs)

text \<open>
  C6. For every successful refresh, the stored \<open>access_token\<close> is the value found in the
  JSON body of the response at \<open>data.token\<close>: under the key \<open>token\<close> of the object under
  the top-level key \<open>data\<close>. No other key of the response is looked at for it.
\<close>

theorem access_token_is_data_token:
  assumes "update_access_token self w = (None, self', w')"
  shows "\<exists>payload resp secs token_json d.
           oauth_request_payload self = Inr payload
         \<and> remote w (sent w @ [\<lparr>url = auth_endpoint self, data = payload, timeout = 60\<rparr>])
             = (Inr resp, secs)
         \<and> json resp = Some token_json
         \<and> getitem token_json ''data'' = Inr d
         \<and> getitem d ''token'' = Inr (access_token self')"
proof -
  from update_access_token_success [OF assms] obtain payload resp secs obj d token where
    run: "oauth_request_payload self = Inr payload"
      "remote w (sent w @ [\<lparr>url = auth_endpoint self, data = payload, timeout = 60\<rparr>])
         = (Inr resp, secs)"
      "raise_for_status resp = None" "json resp = Some (JObj obj)"
      "map_of obj ''data'' = Some d" "getitem d ''token'' = Inr token"
    by blast
  from update_access_token_eval [OF run] assms have "access_token self' = token"
    by auto
  moreover have "getitem (JObj obj) ''data'' = Inr d"
    using run(5) by (rule getitem_dict)
  ultimately show ?thesis using run by blast
qed

text \<open>
  On the example the body has a top-level \<open>access_token\<close> \<open>X\<close> beside \<open>data.token\<close> \<open>T\<close>;
  the stored token is \<open>T\<close>.
\<close>

theorem access_token_is_data_token_witness:
  "update_access_token fresh_auth
     (world_answering (ok_response token_body_with_oauth_field))
     = (None,
        fresh_auth\<lparr>access_token := JStr ''T'', expires_in := JNull,
                    last_refreshed := Some 1000\<rparr>,
        world_after (ok_response token_body_with_oauth_field)
          [(INFO, ''OAuth authorization attempt was successful.''),
           (DEBUG, no_expiry_msg)])
   \<and> (\<exists>d. getitem token_body_with_oauth_field ''data'' = Inr d
         \<and> getitem d ''token'' = Inr (JStr ''T''))
   \<and> getitem token_body_with_oauth_field ''access_token'' = Inr (JStr ''X'')"
  using access_token_is_data_token [OF refresh_oauth_field] refresh_oauth_field
  by (simp add: example_defs dict_item_def)



section \<open>Atomicity and frame of a refresh\<close>

lemma refresh_first_of_two:
  "update_access_token fresh_auth world_rotating
     = (None,
        fresh_auth\<lparr>access_token := JStr ''T'', expires_in := JInt 3600,
                    last_refreshed := Some 1000\<rparr>,
        world_rotating\<lparr>clock := 1002, sent := [personio_request],
          logged := [(INFO, ''OAuth authorization attempt was successful.'')]\<rparr>)"
  by (simp add: refresh_defs example_defs world_rotating_def)

lemma refresh_second_of_two:
  "update_access_token
     (fresh_auth\<lparr>access_token := JStr ''T'', expires_in := JInt 3600,
                 last_refreshed := Some 1000\<rparr>)
     (world_rotating\<lparr>clock := 1002, sent := [personio_request],
        logged := [(INFO, ''OAuth authorization attempt was successful.'')]\<rparr>)
     = (None,
        fresh_auth\<lparr>access_token := JStr ''U'', expires_in := JNull,
                    last_refreshed := Some 1002\<rparr>,
        world_rotating\<lparr>clock := 1005, sent := [personio_request, personio_request],
          logged := [(INFO, ''OAuth authorization attempt was successful.''),
                     (INFO, ''OAuth authorization attempt was successful.''),
                     (DEBUG, no_expiry_msg)]\<rparr>)"
  by (simp add: refresh_defs example_defs world_rotating_def)

text \<open>
  C3. A refresh replaces the token state all at once or not at all. If it raises nothing,
  the authenticator is the old one with \<open>access_token\<close>, \<open>expires_in\<close> and
  \<open>last_refreshed\<close> all set by this refresh, and nothing of the old token state is left in
  the result: started from any other token state, the same refresh ends in the same
  authenticator and the same world (so a second refresh right after a first leaves nothing
  of the first). If it raises, the authenticator is unchanged. Either way every other
  attribute of the authenticator is as before, and outside the authenticator the refresh
  posts its one request (none if the request body could not be built) and writes log lines;
  the remote end is as before and the clock has moved by the time the exchange took.
\<close>

theorem refresh_replaces_token_state_atomically:
  assumes "update_access_token self w = (r, self', w')"
  shows "(case r of
            None \<Rightarrow>
              (\<exists>token expires.
                 self' = self\<lparr>access_token := token, expires_in := expires,
                              last_refreshed := Some (utc_now w)\<rparr>)
            \<and> (\<forall>x y z.
                 update_access_token
                   (self\<lparr>access_token := x, expires_in := y, last_refreshed := z\<rparr>) w
                   = (None, self', w'))
            \<and> (\<exists>payload. oauth_request_payload self = Inr payload)
          | Some e \<Rightarrow> self' = self)
       \<and> config self' = config self
       \<and> auth_endpoint self' = auth_endpoint self
       \<and> oauth_scopes self' = oauth_scopes self
       \<and> default_expiration self' = default_expiration self
       \<and> remote w' = remote w
       \<and> (\<exists>ls. logged w' = logged w @ ls)
       \<and> (case oauth_request_payload self of
            Inl e \<Rightarrow> sent w' = sent w \<and> clock w' = clock w
          | Inr payload \<Rightarrow>
              sent w' = sent w @ [\<lparr>url = auth_endpoint self, data = payload, timeout = 60\<rparr>]
            \<and> clock w' = clock w
                + int (snd (remote w
                    (sent w @ [\<lparr>url = auth_endpoint self, data = payload, timeout = 60\<rparr>]))))"
proof -
  have state:
    "case r of
       None \<Rightarrow>
         (\<exists>token expires.
            self' = self\<lparr>access_token := token, expires_in := expires,
                         last_refreshed := Some (utc_now w)\<rparr>)
       \<and> (\<forall>x y z.
            update_access_token
              (self\<lparr>access_token := x, expires_in := y, last_refreshed := z\<rparr>) w
              = (None, self', w'))
       \<and> (\<exists>payload. oauth_request_payload self = Inr payload)
     | Some e \<Rightarrow> self' = self"
  proof (cases r)
    case None
    with assms have ok: "update_access_token self w = (None, self', w')" by simp
    from update_access_token_success [OF ok] obtain payload resp secs obj d token where
      run: "oauth_request_payload self = Inr payload"
        "remote w (sent w @ [\<lparr>url = auth_endpoint self, data = payload, timeout = 60\<rparr>])
           = (Inr resp, secs)"
        "raise_for_status resp = None" "json resp = Some (JObj obj)"
        "map_of obj ''data'' = Some d" "getitem d ''token'' = Inr token"
      by blast
    note result = update_access_token_eval [OF run]
    from result ok have new: "self' = self\<lparr>access_token := token,
        expires_in := (case map_of obj ''expires_in'' of
                         None \<Rightarrow> of_optional (default_expiration self) | Some v \<Rightarrow> v),
        last_refreshed := Some (utc_now w)\<rparr>"
      by (simp add: utc_now_def)
    have "update_access_token
            (self\<lparr>access_token := x, expires_in := y, last_refreshed := z\<rparr>) w
            = (None, self', w')" for x y z
    proof -
      let ?other = "self\<lparr>access_token := x, expires_in := y, last_refreshed := z\<rparr>"
      have other: "oauth_request_payload ?other = Inr payload"
        "remote w (sent w @ [\<lparr>url = auth_endpoint ?other, data = payload, timeout = 60\<rparr>])
           = (Inr resp, secs)"
        using run(1,2) by (simp_all add: oauth_request_payload_token_state)
      from update_access_token_eval [OF other run(3-6)] result ok show ?thesis
        by (simp split: option.splits)
    qed
    with new run(1) None show ?thesis by auto
  next
    case (Some e)
    with assms update_access_token_failure show ?thesis by auto
  qed
  then have same: "\<exists>x y z. self' = self\<lparr>access_token := x, expires_in := y,
                                           last_refreshed := z\<rparr>"
  proof (cases r)
    case None
    with state show ?thesis by auto
  next
    case (Some e)
    with state have "self' = self\<lparr>access_token := access_token self,
        expires_in := expires_in self, last_refreshed := last_refreshed self\<rparr>"
      by simp
    then show ?thesis by blast
  qed
  then have attrs: "config self' = config self" "auth_endpoint self' = auth_endpoint self"
    "oauth_scopes self' = oauth_scopes self" "default_expiration self' = default_expiration self"
    by auto
  have world: "remote w' = remote w \<and> (\<exists>ls. logged w' = logged w @ ls)
       \<and> (case oauth_request_payload self of
            Inl e \<Rightarrow> sent w' = sent w \<and> clock w' = clock w
          | Inr payload \<Rightarrow>
              sent w' = sent w @ [\<lparr>url = auth_endpoint self, data = payload, timeout = 60\<rparr>]
            \<and> clock w' = clock w
                + int (snd (remote w
                    (sent w @ [\<lparr>url = auth_endpoint self, data = payload, timeout = 60\<rparr>]))))"
  proof (cases "oauth_request_payload self")
    case (Inl e)
    from update_access_token_no_payload [OF assms Inl] Inl show ?thesis by simp
  next
    case (Inr payload)
    from update_access_token_posts [OF assms Inr] Inr show ?thesis by simp
  qed
  from state attrs world show ?thesis by simp
qed

text \<open>
  On the example the authenticator holds token \<open>T\<close>, expiring after 3600 seconds, from a
  first refresh at 1000; the second refresh at 1002 brings token \<open>U\<close> without expiry.
  Afterwards all three fields are the second refresh's.
\<close>

theorem refresh_replaces_token_state_atomically_witness:
  "update_access_token fresh_auth world_rotating
     = (None,
        fresh_auth\<lparr>access_token := JStr ''T'', expires_in := JInt 3600,
                    last_refreshed := Some 1000\<rparr>,
        world_rotating\<lparr>clock := 1002, sent := [personio_request],
          logged := [(INFO, ''OAuth authorization attempt was successful.'')]\<rparr>)
   \<and> update_access_token
       (fresh_auth\<lparr>access_token := JStr ''T'', expires_in := JInt 3600,
                   last_refreshed := Some 1000\<rparr>)
       (world_rotating\<lparr>clock := 1002, sent := [personio_request],
          logged := [(INFO, ''OAuth authorization attempt was successful.'')]\<rparr>)
     = (None,
        fresh_auth\<lparr>access_token := JStr ''U'', expires_in := JNull,
                    last_refreshed := Some 1002\<rparr>,
        world_rotating\<lparr>clock := 1005, sent := [personio_request, personio_request],
          logged := [(INFO, ''OAuth authorization attempt was successful.''),
                     (INFO, ''OAuth authorization attempt was successful.''),
                     (DEBUG, no_expiry_msg)]\<rparr>)
   \<and> update_access_token fresh_auth
       (world_rotating\<lparr>clock := 1002, sent := [personio_request],
          logged := [(INFO, ''OAuth authorization attempt was successful.'')]\<rparr>)
     = (None,
        fresh_auth\<lparr>access_token := JStr ''U'', expires_in := JNull,
                    last_refreshed := Some 1002\<rparr>,
        world_rotating\<lparr>clock := 1005, sent := [personio_request, personio_request],
          logged := [(INFO, ''OAuth authorization attempt was successful.''),
                     (INFO, ''OAuth authorization attempt was successful.''),
                     (DEBUG, no_expiry_msg)]\<rparr>)"
proof -
  have "\<forall>x y z.
          update_access_token
            (fresh_auth\<lparr>access_token := JStr ''T'', expires_in := JInt 3600,
                        last_refreshed := Some 1000,
                        access_token := x, expires_in := y, last_refreshed := z\<rparr>)
            (world_rotating\<lparr>clock := 1002, sent := [personio_request],
               logged := [(INFO, ''OAuth authorization attempt was successful.'')]\<rparr>)
          = (None,
             fresh_auth\<lparr>access_token := JStr ''U'', expires_in := JNull,
                         last_refreshed := Some 1002\<rparr>,
             world_rotating\<lparr>clock := 1005, sent := [personio_request, personio_request],
               logged := [(INFO, ''OAuth authorization attempt was successful.''),
                          (INFO, ''OAuth authorization attempt was successful.''),
                          (DEBUG, no_expiry_msg)]\<rparr>)"
    using refresh_replaces_token_state_atomically [OF refresh_second_of_two]
    by simp
  then have "update_access_token
       (fresh_auth\<lparr>access_token := JStr ''T'', expires_in := JInt 3600,
                   last_refreshed := Some 1000,
                   access_token := JNull, expires_in := JNull, last_refreshed := None\<rparr>)
       (world_rotating\<lparr>clock := 1002, sent := [personio_request],
          logged := [(INFO, ''OAuth authorization attempt was successful.'')]\<rparr>)
     = (None,
        fresh_auth\<lparr>access_token := JStr ''U'', expires_in := JNull,
                    last_refreshed := Some 1002\<rparr>,
        world_rotating\<lparr>clock := 1005, sent := [personio_request, personio_request],
          logged := [(INFO, ''OAuth authorization attempt was successful.''),
                     (INFO, ''OAuth authorization attempt was successful.''),
                     (DEBUG, no_expiry_msg)]\<rparr>)"
    by blast
  moreover have "fresh_auth\<lparr>access_token := JStr ''T'', expires_in := JInt 3600,
                   last_refreshed := Some 1000,
                   access_token := JNull, expires_in := JNull, last_refreshed := None\<rparr>
                 = fresh_auth"
    by (simp add: fresh_auth_def PersonioAuthenticator_init_def)
  ultimately show ?thesis
    using refresh_first_of_two refresh_second_of_two by simp
qed

section \<open>The request of a refresh\<close>

lemma create_for_stream_registers:
  assumes "create_for_stream strm p = (a, p')"
  shows "map_of (instances p') (stream_config strm) = Some a"
  using assms
  by (auto simp: create_for_stream_def SingletonMeta_call_def Let_def split: option.splits)

lemma create_for_stream_known:
  assumes "map_of (instances p) (stream_config strm) = Some a"
  shows "create_for_stream strm p = (a, p)"
  using assms by (simp add: create_for_stream_def SingletonMeta_call_def)

lemma create_for_stream_new:
  assumes "create_for_stream strm p = (a, p')"
    and "map_of (instances p) (stream_config strm) = None"
  shows "objects p' ! a =
           PersonioAuthenticator_init strm ''https://api.personio.de/v1/auth'' ''''"
  using assms
  by (auto simp: create_for_stream_def SingletonMeta_call_def Let_def)

lemma create_personio_stream:
  "create_for_stream personio_stream empty_process
     = (0, \<lparr>objects = [fresh_auth], instances = [(stream_config personio_stream, 0)]\<rparr>)"
  by (simp add: create_for_stream_def SingletonMeta_call_def Let_def empty_process_def
      fresh_auth_def)

text \<open>
  C7. Take the authenticator that \<open>create_for_stream\<close> makes for a stream whose
  configuration holds \<open>client_id\<close> and \<open>client_secret\<close>, in whatever token state it is by
  the time of a refresh. Every refresh of it, whatever its outcome, posts exactly one
  request: to \<open>https://api.personio.de/v1/auth\<close>, with a timeout of 60 seconds, and with a
  body of exactly the two entries \<open>client_id\<close> and \<open>client_secret\<close> of the configuration
  (no scope).
\<close>

theorem refresh_posts_once:
  assumes "create_for_stream strm p0 = (a, p)"
    and "map_of (instances p0) (stream_config strm) = None"
    and "dict_item (stream_config strm) ''client_id'' = Inr client_id"
    and "dict_item (stream_config strm) ''client_secret'' = Inr client_secret"
    and "self = (objects p ! a)\<lparr>access_token := x, expires_in := y, last_refreshed := z\<rparr>"
    and "update_access_token self w = (r, self', w')"
  shows "sent w' = sent w @
           [\<lparr>url = ''https://api.personio.de/v1/auth'',
             data = [(''client_id'', client_id), (''client_secret'', client_secret)],
             timeout = 60\<rparr>]"
proof -
  have made: "objects p ! a =
                PersonioAuthenticator_init strm ''https://api.personio.de/v1/auth'' ''''"
    using assms(1,2) by (rule create_for_stream_new)
  have endpoint: "auth_endpoint self = ''https://api.personio.de/v1/auth''"
    and conf: "config self = stream_config strm"
    by (simp_all add: assms(5) made PersonioAuthenticator_init_def)
  have payload: "oauth_request_payload self
                   = Inr [(''client_id'', client_id), (''client_secret'', client_secret)]"
    by (simp add: oauth_request_payload_def oauth_request_body_def conf assms(3,4))
  from update_access_token_posts [OF assms(6) payload] endpoint show ?thesis
    by simp
qed

text \<open>
  On the example the authenticator still holds an earlier token and the remote end answers
  401: one request is posted all the same.
\<close>

theorem refresh_posts_once_witness:
  "create_for_stream personio_stream empty_process
     = (0, \<lparr>objects = [fresh_auth], instances = [(stream_config personio_stream, 0)]\<rparr>)
   \<and> map_of (instances empty_process) (stream_config personio_stream) = None
   \<and> dict_item (stream_config personio_stream) ''client_id'' = Inr (JStr ''id'')
   \<and> dict_item (stream_config personio_stream) ''client_secret'' = Inr (JStr ''secret'')
   \<and> update_access_token
       (fresh_auth\<lparr>access_token := JStr ''T'', expires_in := JInt 3600,
                   last_refreshed := Some 0\<rparr>)
       (world_answering unauthorized)
     = (Some (RuntimeError (failed_login_msg (JObj [(''success'', JBool False)])
                ''401 Client Error: Unauthorized for url: https://api.personio.de/v1/auth'')
              (HTTPError
                ''401 Client Error: Unauthorized for url: https://api.personio.de/v1/auth'')),
        fresh_auth\<lparr>access_token := JStr ''T'', expires_in := JInt 3600,
                    last_refreshed := Some 0\<rparr>,
        world_after unauthorized [])
   \<and> sent (world_after unauthorized []) =
       sent (world_answering unauthorized) @
         [\<lparr>url = ''https://api.personio.de/v1/auth'',
           data = [(''client_id'', JStr ''id''), (''client_secret'', JStr ''secret'')],
           timeout = 60\<rparr>]"
proof -
  have no_instance: "map_of (instances empty_process) (stream_config personio_stream) = None"
    by (simp add: empty_process_def)
  have client_id: "dict_item (stream_config personio_stream) ''client_id'' = Inr (JStr ''id'')"
    and client_secret:
      "dict_item (stream_config personio_stream) ''client_secret'' = Inr (JStr ''secret'')"
    by (simp_all add: dict_item_def personio_stream_def)
  have self: "fresh_auth\<lparr>access_token := JStr ''T'', expires_in := JInt 3600,
                         last_refreshed := Some 0\<rparr>
              = (objects \<lparr>objects = [fresh_auth],
                          instances = [(stream_config personio_stream, 0)]\<rparr> ! 0)
                  \<lparr>access_token := JStr ''T'', expires_in := JInt 3600,
                   last_refreshed := Some 0\<rparr>"
    by simp
  have run: "update_access_token
       (fresh_auth\<lparr>access_token := JStr ''T'', expires_in := JInt 3600,
                   last_refreshed := Some 0\<rparr>)
       (world_answering unauthorized)
     = (Some (RuntimeError (failed_login_msg (JObj [(''success'', JBool False)])
                ''401 Client Error: Unauthorized for url: https://api.personio.de/v1/auth'')
              (HTTPError
                ''401 Client Error: Unauthorized for url: https://api.personio.de/v1/auth'')),
        fresh_auth\<lparr>access_token := JStr ''T'', expires_in := JInt 3600,
                    last_refreshed := Some 0\<rparr>,
        world_after unauthorized [])"
    by (simp add: refresh_defs example_defs)
  from refresh_posts_once [OF create_personio_stream no_instance client_id client_secret
      self run]
  show ?thesis
    using create_personio_stream no_instance client_id client_secret run by simp
qed

section \<open>Responses that do not carry what the refresh expects\<close>

text \<open>
  C1. A refresh whose response fails the status check is to raise the \<open>RuntimeError\<close> that
  carries the body and the status, and to change nothing of the token state. It changes
  nothing (\<open>update_access_token_failure\<close>), and it raises that error when the body is JSON
  (\<open>update_access_token_http_error\<close>). Here the remote end answers 502 with an HTML
  body: \<open>raise_for_status\<close> raises \<open>HTTPError\<close>, and \<open>json()\<close>, called while the
  message of the \<open>RuntimeError\<close> is put together, raises in its turn. What leaves the
  refresh is the \<open>JSONDecodeError\<close>, not the \<open>RuntimeError\<close>.
\<close>

theorem refresh_bad_gateway_raises_JSONDecodeError:
  "update_access_token fresh_auth (world_answering bad_gateway)
     = (Some JSONDecodeError, fresh_auth, world_after bad_gateway [])"
  by (simp add: refresh_defs example_defs)

text \<open>
  C2. A refresh whose response passes the status check but has a body that is not JSON, or
  has no \<open>data.token\<close>, is to raise the \<open>RuntimeError\<close> of a failed login and no bare
  parse error. Here the remote end answers 200 with the body \<open>{"data": {}}\<close>: the refresh
  logs that the authorization attempt was successful and then raises the \<open>KeyError\<close> of
  the missing key \<open>token\<close>. And it answers 200 with a body that is not JSON: the refresh
  raises the \<open>JSONDecodeError\<close> of \<open>json()\<close>. Neither is a \<open>RuntimeError\<close>. The
  authenticator is unchanged both times.
\<close>

theorem refresh_without_token_raises_parse_error:
  "update_access_token fresh_auth (world_answering (ok_response body_without_token))
     = (Some (KeyError ''token''), fresh_auth,
        world_after (ok_response body_without_token)
          [(INFO, ''OAuth authorization attempt was successful.'')])
   \<and> update_access_token fresh_auth (world_answering ok_not_json)
     = (Some JSONDecodeError, fresh_auth,
        world_after ok_not_json [(INFO, ''OAuth authorization attempt was successful.'')])"
  by (simp add: refresh_defs example_defs)

section \<open>Using the token\<close>

lemma getToken_valid:
  assumes "isValid self w"
  shows "getToken self w = (Inr (access_token self), self, w)"
  using assms by (simp add: getToken_def)

lemma getToken_refresh:
  assumes "\<not> isValid self w"
  shows "getToken self w =
           (case update_access_token self w of
              (Some e, self', w') \<Rightarrow> (Inl e, self', w')
            | (None, self', w') \<Rightarrow> (Inr (access_token self'), self', w'))"
  using assms by (simp add: getToken_def)

text \<open>\<open>getToken\<close> raises exactly what the refresh it had to make raises.\<close>

lemma getToken_raises_iff:
  "getToken self w = (Inl e, self', w')
     \<longleftrightarrow> \<not> isValid self w \<and> update_access_token self w = (Some e, self', w')"
  by (cases "update_access_token self w")
     (auto simp: getToken_def split: option.splits)

lemma getToken_returns_current:
  assumes "getToken self w = (Inr token, self', w')"
  shows "access_token self' = token"
  using assms
  by (cases "update_access_token self w")
     (auto simp: getToken_def split: if_splits option.splits)

text \<open>A refresh that \<open>getToken\<close> makes posts one request.\<close>

lemma getToken_posts_one_request:
  assumes "\<not> isValid self w"
    and "getToken self w = (r, self', w')"
    and "oauth_request_payload self = Inr payload"
  shows "sent w' = sent w @ [\<lparr>url = auth_endpoint self, data = payload, timeout = 60\<rparr>]"
proof -
  obtain r0 where "update_access_token self w = (r0, self', w')"
    using assms(1,2)
    by (cases "update_access_token self w") (auto simp: getToken_def split: option.splits)
  from update_access_token_posts [OF this assms(3)] show ?thesis by simp
qed

text \<open>
  C8. \<open>getToken\<close> returns the held token without a request while it is valid
  (\<open>getToken_valid\<close>), and otherwise makes one refresh and returns its token
  (\<open>getToken_refresh\<close>, \<open>getToken_posts_one_request\<close>); it raises exactly when that
  refresh raises, and what the refresh raises (\<open>getToken_raises_iff\<close>). That is to be the
  \<open>RuntimeError\<close> of a failed login in every case. Here the authenticator has no token and
  the remote end answers 200 with the body \<open>{"data": {}}\<close>: \<open>getToken\<close> makes its one
  refresh, the refresh raises \<open>KeyError\<close>, and so does \<open>getToken\<close>.
\<close>

theorem getToken_without_token_raises_KeyError:
  "getToken fresh_auth (world_answering (ok_response body_without_token))
     = (Inl (KeyError ''token''), fresh_auth,
        world_after (ok_response body_without_token)
          [(INFO, ''OAuth authorization attempt was successful.'')])"
  by (simp add: getToken_def isValid_def refresh_defs example_defs)

section \<open>One authenticator per configuration\<close>

lemma getToken_at_Some:
  assumes "getToken_at a p w = Some (r, p', w')"
  shows "a < length (objects p) \<and> instances p' = instances p
       \<and> (\<exists>self'. getToken (objects p ! a) w = (r, self', w')
                \<and> objects p' = (objects p)[a := self'])"
  using assms
  by (cases "getToken (objects p ! a) w")
     (auto simp: getToken_at_def split: if_splits)

text \<open>
  C9. Constructing the authenticator again for the same configuration gives the instance
  that the first construction gave, and makes no new object: right after the first
  construction, and also after a caller has got a token through the first reference. The
  token state is that one instance's, so while the token got through the first reference is
  valid, \<open>getToken\<close> through the second reference returns it and posts nothing.
\<close>

theorem singleton_shares_token_state:
  assumes "create_for_stream s1 p0 = (a1, p1)"
    and "stream_config s2 = stream_config s1"
    and "getToken_at a1 p1 w = Some (Inr token, p2, w1)"
    and "create_for_stream s2 p2 = (a2, p3)"
    and "isValid (objects p3 ! a2) w2"
  shows "create_for_stream s2 p1 = (a1, p1)
       \<and> a2 = a1 \<and> p3 = p2
       \<and> getToken_at a2 p3 w2 = Some (Inr token, p3, w2)"
proof -
  have known: "map_of (instances p1) (stream_config s2) = Some a1"
    using create_for_stream_registers [OF assms(1)] assms(2) by simp
  then have again: "create_for_stream s2 p1 = (a1, p1)"
    by (rule create_for_stream_known)
  from getToken_at_Some [OF assms(3)] obtain self' where
    first: "a1 < length (objects p1)" "instances p2 = instances p1"
      "getToken (objects p1 ! a1) w = (Inr token, self', w1)"
      "objects p2 = (objects p1)[a1 := self']"
    by blast
  from known first(2) have "map_of (instances p2) (stream_config s2) = Some a1"
    by simp
  then have "create_for_stream s2 p2 = (a1, p2)"
    by (rule create_for_stream_known)
  with assms(4) have same: "a2 = a1" "p3 = p2"
    by simp_all
  have shared: "objects p2 ! a1 = self'"
    using first(1,4) by simp
  have token: "access_token self' = token"
    using first(3) by (rule getToken_returns_current)
  have valid: "isValid self' w2"
    using assms(5) same shared by simp
  have "getToken_at a1 p2 w2 = Some (Inr token, p2, w2)"
    using first(1,4) shared token getToken_valid [OF valid]
    by (simp add: getToken_at_def)
  with again same show ?thesis by simp
qed

text \<open>
  On the example the first caller gets token \<open>T\<close> at 1000, valid for 3600 seconds; a second
  construction at 2000 gives the same instance, and \<open>getToken\<close> through it returns \<open>T\<close>
  with still only the one request posted.
\<close>

theorem singleton_shares_token_state_witness:
  "create_for_stream personio_stream empty_process
     = (0, \<lparr>objects = [fresh_auth], instances = [(stream_config personio_stream, 0)]\<rparr>)
   \<and> getToken_at 0
       \<lparr>objects = [fresh_auth], instances = [(stream_config personio_stream, 0)]\<rparr>
       (world_answering (ok_response token_body))
     = Some (Inr (JStr ''T''),
         \<lparr>objects = [fresh_auth\<lparr>access_token := JStr ''T'', expires_in := JInt 3600,
                                  last_refreshed := Some 1000\<rparr>],
          instances = [(stream_config personio_stream, 0)]\<rparr>,
         world_after (ok_response token_body)
           [(INFO, ''OAuth authorization attempt was successful.'')])
   \<and> create_for_stream personio_stream
       \<lparr>objects = [fresh_auth\<lparr>access_token := JStr ''T'', expires_in := JInt 3600,
                                last_refreshed := Some 1000\<rparr>],
        instances = [(stream_config personio_stream, 0)]\<rparr>
     = (0, \<lparr>objects = [fresh_auth\<lparr>access_token := JStr ''T'', expires_in := JInt 3600,
                                     last_refreshed := Some 1000\<rparr>],
             instances = [(stream_config personio_stream, 0)]\<rparr>)
   \<and> getToken_at 0
       \<lparr>objects = [fresh_auth\<lparr>access_token := JStr ''T'', expires_in := JInt 3600,
                                last_refreshed := Some 1000\<rparr>],
        instances = [(stream_config personio_stream, 0)]\<rparr>
       ((world_after (ok_response token_body)
           [(INFO, ''OAuth authorization attempt was successful.'')])\<lparr>clock := 2000\<rparr>)
     = Some (Inr (JStr ''T''),
         \<lparr>objects = [fresh_auth\<lparr>access_token := JStr ''T'', expires_in := JInt 3600,
                                  last_refreshed := Some 1000\<rparr>],
          instances = [(stream_config personio_stream, 0)]\<rparr>,
         (world_after (ok_response token_body)
           [(INFO, ''OAuth authorization attempt was successful.'')])\<lparr>clock := 2000\<rparr>)"
proof -
  let ?p1 = "\<lparr>objects = [fresh_auth], instances = [(stream_config personio_stream, 0)]\<rparr>"
  let ?held = "fresh_auth\<lparr>access_token := JStr ''T'', expires_in := JInt 3600,
                           last_refreshed := Some 1000\<rparr>"
  let ?p2 = "\<lparr>objects = [?held], instances = [(stream_config personio_stream, 0)]\<rparr>"
  let ?w1 = "world_after (ok_response token_body)
               [(INFO, ''OAuth authorization attempt was successful.'')]"
  have not_yet: "\<not> isValid fresh_auth (world_answering (ok_response token_body))"
    by (simp add: isValid_def fresh_auth_def PersonioAuthenticator_init_def)
  have first: "getToken_at 0 ?p1 (world_answering (ok_response token_body))
                 = Some (Inr (JStr ''T''), ?p2, ?w1)"
    by (simp add: getToken_at_def getToken_refresh [OF not_yet] refresh_token_body)
  have second: "create_for_stream personio_stream ?p2 = (0, ?p2)"
    by (simp add: create_for_stream_def SingletonMeta_call_def)
  have valid: "isValid (objects ?p2 ! 0) (?w1\<lparr>clock := 2000\<rparr>)"
    by (simp add: isValid_def utc_now_def)
  from singleton_shares_token_state [OF create_personio_stream refl first second valid]
  show ?thesis
    using create_personio_stream first second by simp
qed

end
